theory Spec2Isabelle
  imports Complex_Main "HOL-Library.AList"
begin

section \<open>Values exchanged between the sender, the server and the monitor\<close>

text \<open>
  The payloads are Python dictionaries obtained from JSON. A dictionary is an association
  list in insertion order with distinct keys; \<open>AList.update\<close> is Python's item assignment
  (an existing key keeps its position, a new key goes to the end). Python's unbounded
  integers are \<open>int\<close>. A Python float is modelled by the real number it denotes; where
  the code computes with floats, the rounding of the float format is the parameter
  \<open>rnd\<close> of the definitions below.
\<close>

datatype json =
    JNull
  | JBool bool
  | JInt int
  | JFloat real
  | JStr string
  | JList "json list"
  | JDict "(string \<times> json) list"

type_synonym dict = "(string \<times> json) list"

datatype py_error =
    TypeError | ValueError | KeyError | IndexError | AttributeError | BadRequest | BLEError

text \<open>\<open>d.get(k, default)\<close>\<close>

definition dict_get :: "dict \<Rightarrow> string \<Rightarrow> json \<Rightarrow> json" where
  "dict_get d k dflt = (case map_of d k of None \<Rightarrow> dflt | Some v \<Rightarrow> v)"

text \<open>Python's truth value of a JSON value, as tested by \<open>if v:\<close>.\<close>

fun truthy :: "json \<Rightarrow> bool" where
  "truthy JNull = False"
| "truthy (JBool b) = b"
| "truthy (JInt i) = (i \<noteq> 0)"
| "truthy (JFloat x) = (x \<noteq> 0)"
| "truthy (JStr s) = (s \<noteq> [])"
| "truthy (JList xs) = (xs \<noteq> [])"
| "truthy (JDict kvs) = (kvs \<noteq> [])"

text \<open>\<open>len(v)\<close>: defined on strings, lists and dictionaries, a TypeError elsewhere.\<close>

fun py_len :: "json \<Rightarrow> py_error + nat" where
  "py_len (JStr s) = Inr (length s)"
| "py_len (JList xs) = Inr (length xs)"
| "py_len (JDict kvs) = Inr (length kvs)"
| "py_len _ = Inl TypeError"

section \<open>data_storage.py: class DataStorage\<close>

text \<open>
  The lock makes every method one atomic step; a method is a function on the fields.
  \<open>store_data\<close> is called by \<open>receive_data\<close> only, with the dictionary parsed from the
  request at hand, so no two calls share a dictionary object and dictionaries are
  values. The getters return copies, which as values are the fields themselves.
\<close>

record DataStorage =
  latest_data :: dict
  latest_raw_data :: dict
  detection_history :: "dict list"
  raw_history :: "dict list"
  max_history :: nat

definition DataStorage_init :: DataStorage where
  "DataStorage_init =
     \<lparr>latest_data = [], latest_raw_data = [], detection_history = [], raw_history = [],
      max_history = 100\<rparr>"

text \<open>
  \<open>store_data\<close> assigns \<open>data['timestamp'] = time.time()\<close> in place, so the caller's
  dictionary changes too: the function returns the dictionary after the call together
  with the new state. \<open>now\<close> is the value of \<open>time.time()\<close>.
\<close>

definition store_data :: "real \<Rightarrow> dict \<Rightarrow> DataStorage \<Rightarrow> dict \<times> DataStorage" where
  "store_data now data0 s =
     (let data = AList.update ''timestamp'' (JFloat now) data0 in
      if truthy (dict_get data ''raw_image'' (JBool False)) then
        (let s1 = s\<lparr>latest_raw_data := data, raw_history := raw_history s @ [data]\<rparr> in
         if length (raw_history s1) > max_history s1
         then (data, s1\<lparr>raw_history := tl (raw_history s1)\<rparr>)
         else (data, s1))
      else
        (let s1 = s\<lparr>latest_data := data, detection_history := detection_history s @ [data]\<rparr> in
         if length (detection_history s1) > max_history s1
         then (data, s1\<lparr>detection_history := tl (detection_history s1)\<rparr>)
         else (data, s1)))"

definition get_latest_data :: "DataStorage \<Rightarrow> dict" where
  "get_latest_data s = latest_data s"

definition get_latest_raw_data :: "DataStorage \<Rightarrow> dict" where
  "get_latest_raw_data s = latest_raw_data s"

definition get_detection_count :: "DataStorage \<Rightarrow> py_error + nat" where
  "get_detection_count s = py_len (dict_get (latest_data s) ''detections'' (JList []))"

definition get_history :: "DataStorage \<Rightarrow> dict list" where
  "get_history s = detection_history s"

definition get_raw_history :: "DataStorage \<Rightarrow> dict list" where
  "get_raw_history s = raw_history s"

definition clear_data :: "DataStorage \<Rightarrow> DataStorage" where
  "clear_data s =
     s\<lparr>latest_data := [], latest_raw_data := [], detection_history := [], raw_history := []\<rparr>"

text \<open>A sequence of calls of \<open>store_data\<close>, each with its clock reading, in arrival order.\<close>

fun store_all :: "(real \<times> dict) list \<Rightarrow> DataStorage \<Rightarrow> DataStorage" where
  "store_all [] s = s"
| "store_all (p # ps) s = store_all ps (snd (store_data (fst p) (snd p) s))"

text \<open>The dictionary as \<open>store_data\<close> leaves it, and the channel it is routed to.\<close>

definition stamped :: "real \<times> dict \<Rightarrow> dict" where
  "stamped p = AList.update ''timestamp'' (JFloat (fst p)) (snd p)"

definition is_raw :: "dict \<Rightarrow> bool" where
  "is_raw d = truthy (dict_get d ''raw_image'' (JBool False))"

section \<open>flask_server.py: the route /data\<close>

text \<open>
  A request carries Flask's \<open>is_json\<close> flag and the outcome of \<open>get_json()\<close>, which
  raises on a body that does not parse. The three responses of \<open>receive_data\<close> are
  status 415, status 200 with \<open>received_count\<close>, and status 500 with the exception
  caught by the handler.
\<close>

record request =
  is_json :: bool
  get_json :: "py_error + json"

datatype response = Response415 | Response200 nat | Response500 py_error

text \<open>\<open>len(content.get('detections', []))\<close>\<close>

definition received_count :: "json \<Rightarrow> py_error + nat" where
  "received_count content =
     (case content of
        JDict d \<Rightarrow> py_len (dict_get d ''detections'' (JList []))
      | _ \<Rightarrow> Inl AttributeError)"

text \<open>
  \<open>data_store.store_data(content)\<close>, skipped when the module has no store. Item
  assignment on a body that is not a dictionary raises a TypeError before any field
  is written.
\<close>

definition store_content ::
  "real \<Rightarrow> json \<Rightarrow> DataStorage option \<Rightarrow> py_error + json \<times> DataStorage option" where
  "store_content now content data_store =
     (case data_store of
        None \<Rightarrow> Inr (content, None)
      | Some s \<Rightarrow>
          (case content of
             JDict d \<Rightarrow> Inr (JDict (fst (store_data now d s)), Some (snd (store_data now d s)))
           | _ \<Rightarrow> Inl TypeError))"

text \<open>
  \<open>ble_handler.py\<close> is not part of the sources at hand: \<open>ble_handler\<close> is \<open>None\<close> when
  the server has no handler, and otherwise gives, for the content sent, the exception
  that \<open>asyncio.run(self.ble_handler.send_data(content))\<close> raises, if any.
\<close>

definition receive_data ::
  "(json \<Rightarrow> py_error option) option \<Rightarrow> real \<Rightarrow> request \<Rightarrow> DataStorage option
     \<Rightarrow> response \<times> DataStorage option" where
  "receive_data ble_handler now req data_store =
     (if \<not> is_json req then (Response415, data_store)
      else
        (case get_json req of
           Inl e \<Rightarrow> (Response500 e, data_store)
         | Inr content0 \<Rightarrow>
             (case store_content now content0 data_store of
                Inl e \<Rightarrow> (Response500 e, data_store)
              | Inr (content, data_store') \<Rightarrow>
                  (case (case ble_handler of None \<Rightarrow> None | Some send_data \<Rightarrow> send_data content) of
                     Some e \<Rightarrow> (Response500 e, data_store')
                   | None \<Rightarrow>
                       (case received_count content of
                          Inl e \<Rightarrow> (Response500 e, data_store')
                        | Inr n \<Rightarrow> (Response200 n, data_store'))))))"

section \<open>raspi_detection_sender.py\<close>

text \<open>
  An image is a numpy array: its shape and its bytes. A float operation is the exact
  operation followed by the rounding \<open>rnd\<close> of the float format; \<open>int - float\<close>
  converts the integer first. \<open>int(x)\<close> of a float truncates towards zero.
\<close>

record image =
  shape :: "nat list"
  pixels :: "nat list"

definition fadd :: "(real \<Rightarrow> real) \<Rightarrow> real \<Rightarrow> real \<Rightarrow> real" where
  "fadd rnd a b = rnd (a + b)"

definition fsub :: "(real \<Rightarrow> real) \<Rightarrow> real \<Rightarrow> real \<Rightarrow> real" where
  "fsub rnd a b = rnd (a - b)"

definition fdiv :: "(real \<Rightarrow> real) \<Rightarrow> real \<Rightarrow> real \<Rightarrow> real" where
  "fdiv rnd a b = rnd (a / b)"

definition to_float :: "(real \<Rightarrow> real) \<Rightarrow> int \<Rightarrow> real" where
  "to_float rnd i = rnd (real_of_int i)"

definition trunc :: "real \<Rightarrow> int" where
  "trunc x = (if 0 \<le> x then \<lfloor>x\<rfloor> else \<lceil>x\<rceil>)"

text \<open>
  What the sender takes from outside: the JPEG and base64 encoder, the clock string of
  \<open>time.strftime\<close>, the float rounding, the cropper, and the YOLO model (its table of
  class names and the boxes it returns for an image).
\<close>

record box =
  cls :: real
  conf :: real
  xyxy :: "real \<times> real \<times> real \<times> real"

record sender_env =
  encode_image_to_base64 :: "image \<Rightarrow> string"
  strftime_now :: string
  rnd :: "real \<Rightarrow> real"
  get_cropped_image :: "image option \<Rightarrow> image option"
  names :: "(int \<times> string) list"
  model :: "image \<Rightarrow> box list"

text \<open>
  \<open>send_image_data\<close> builds the payload and posts it; the outcome of the post is only
  printed, so the function is modelled by the payload it submits. The unpacking of
  \<open>image.shape[:2]\<close> stands before the \<open>try\<close>.
\<close>

definition send_image_data :: "sender_env \<Rightarrow> image \<Rightarrow> dict list \<Rightarrow> bool \<Rightarrow> py_error + dict" where
  "send_image_data env img detections israw =
     (case shape img of
        h # w # _ \<Rightarrow>
          Inr [(''image'', JStr (encode_image_to_base64 env img)),
               (''timestamp'', JStr (strftime_now env)),
               (''detections'', JList (if \<not> israw then map JDict detections else [])),
               (''crop_shape'', JList [JInt (int w), JInt (int h)]),
               (''raw_image'', JBool israw)]
      | _ \<Rightarrow> Inl ValueError)"

definition target :: "string list" where
  "target = [''triangle'', ''rectangle'', ''arch'', ''cube'']"

definition target_ids :: "(int \<times> string) list \<Rightarrow> int list" where
  "target_ids nms = map fst (filter (\<lambda>p. snd p \<in> set target) nms)"

definition center_x :: "(real \<Rightarrow> real) \<Rightarrow> box \<Rightarrow> real" where
  "center_x r b = (case xyxy b of (x1, y1, x2, y2) \<Rightarrow> fdiv r (fadd r x1 x2) 2)"

definition center_y :: "(real \<Rightarrow> real) \<Rightarrow> box \<Rightarrow> real" where
  "center_y r b = (case xyxy b of (x1, y1, x2, y2) \<Rightarrow> fdiv r (fadd r y1 y2) 2)"

text \<open>The body of \<open>for box in res[0].boxes\<close>, with the list \<open>dets\<close> built so far.\<close>

fun dets_loop ::
  "sender_env \<Rightarrow> int list \<Rightarrow> nat \<Rightarrow> box list \<Rightarrow> dict list \<Rightarrow> py_error + dict list" where
  "dets_loop env ids h [] dets = Inr dets"
| "dets_loop env ids h (b # boxes) dets =
     (let c = trunc (cls b) in
      if c \<notin> set ids then dets_loop env ids h boxes dets
      else
        (case map_of (names env) c of
           None \<Rightarrow> Inl KeyError
         | Some n \<Rightarrow>
             dets_loop env ids h boxes
               (dets @
                [[(''class'', JStr n),
                  (''confidence'', JFloat (conf b)),
                  (''center_px'',
                     JList [JFloat (center_x (rnd env) b),
                            JFloat (fsub (rnd env) (to_float (rnd env) (int h))
                                      (center_y (rnd env) b))])]])))"

text \<open>
  One pass of the \<open>while True\<close> loop of \<open>main\<close>, for the value of \<open>send_raw_mode\<close> read
  by its \<open>if\<close> and the frame captured: the detector calls and submissions it makes, in
  order, and the exception that ends it, if any.
\<close>

datatype event = DetectorCall image | Submit dict

definition main_iteration ::
  "sender_env \<Rightarrow> bool \<Rightarrow> image option \<Rightarrow> event list \<times> py_error option" where
  "main_iteration env send_raw_mode frame =
     (if send_raw_mode then
        (case frame of
           None \<Rightarrow> ([], None)
         | Some f \<Rightarrow>
             (case shape f of
                [h, w, ch] \<Rightarrow>
                  (case send_image_data env f [] True of
                     Inl e \<Rightarrow> ([], Some e)
                   | Inr payload \<Rightarrow> ([Submit payload], None))
              | _ \<Rightarrow> ([], Some ValueError)))
      else
        (case get_cropped_image env frame of
           None \<Rightarrow> ([], None)
         | Some cropped \<Rightarrow>
             (case shape cropped of
                [h, w, ch] \<Rightarrow>
                  (case dets_loop env (target_ids (names env)) h (model env cropped) [] of
                     Inl e \<Rightarrow> ([DetectorCall cropped], Some e)
                   | Inr dets \<Rightarrow>
                       (case send_image_data env cropped dets False of
                          Inl e \<Rightarrow> ([DetectorCall cropped], Some e)
                        | Inr payload \<Rightarrow> ([DetectorCall cropped, Submit payload], None)))
              | _ \<Rightarrow> ([], Some ValueError))))"

section \<open>image_utils.py: ImageProcessor.draw_detections\<close>

text \<open>
  \<open>int(v)\<close> on a JSON value; the parser of \<open>int\<close> on strings is the parameter
  \<open>str_to_int\<close>.
\<close>

fun py_int :: "(string \<Rightarrow> int option) \<Rightarrow> json \<Rightarrow> py_error + int" where
  "py_int str_to_int (JInt i) = Inr i"
| "py_int str_to_int (JFloat x) = Inr (trunc x)"
| "py_int str_to_int (JBool b) = Inr (if b then 1 else 0)"
| "py_int str_to_int (JStr s) =
     (case str_to_int s of None \<Rightarrow> Inl ValueError | Some i \<Rightarrow> Inr i)"
| "py_int str_to_int _ = Inl TypeError"

text \<open>The items that iterating over a JSON value yields.\<close>

fun py_iter :: "json \<Rightarrow> py_error + json list" where
  "py_iter (JList xs) = Inr xs"
| "py_iter (JStr s) = Inr (map (\<lambda>c. JStr [c]) s)"
| "py_iter (JDict kvs) = Inr (map (\<lambda>p. JStr (fst p)) kvs)"
| "py_iter _ = Inl TypeError"

text \<open>
  \<open>x, y = map(int, v)\<close>: the map is lazy, so the items are converted one by one as the
  unpacking asks for them, and a third item is converted before the unpacking
  complains of it.
\<close>

definition unpack2_int :: "(string \<Rightarrow> int option) \<Rightarrow> json \<Rightarrow> py_error + int \<times> int" where
  "unpack2_int str_to_int v =
     (case py_iter v of
        Inl e \<Rightarrow> Inl e
      | Inr [] \<Rightarrow> Inl ValueError
      | Inr (a # r1) \<Rightarrow>
          (case py_int str_to_int a of
             Inl e \<Rightarrow> Inl e
           | Inr x \<Rightarrow>
               (case r1 of
                  [] \<Rightarrow> Inl ValueError
                | b # r2 \<Rightarrow>
                    (case py_int str_to_int b of
                       Inl e \<Rightarrow> Inl e
                     | Inr y \<Rightarrow>
                         (case r2 of
                            [] \<Rightarrow> Inr (x, y)
                          | c # r3 \<Rightarrow>
                              (case py_int str_to_int c of
                                 Inl e \<Rightarrow> Inl e
                               | Inr z \<Rightarrow> Inl ValueError))))))"

text \<open>
  The drawing calls made on the copy of the image: \<open>cv2.circle\<close> with its centre and
  \<open>cv2.putText\<close> with its text and origin. \<open>fmt_label\<close> is the f-string of the label,
  applied to the class and the confidence of the detection.
\<close>

datatype draw_op = Circle int int | PutText string int int

fun draw_loop ::
  "(string \<Rightarrow> int option) \<Rightarrow> (json \<Rightarrow> json \<Rightarrow> py_error + string) \<Rightarrow> image \<Rightarrow> dict list
     \<Rightarrow> draw_op list \<Rightarrow> py_error + draw_op list" where
  "draw_loop str_to_int fmt_label img [] ops = Inr ops"
| "draw_loop str_to_int fmt_label img (det # detections) ops =
     (case map_of det ''center_px'' of
        None \<Rightarrow> draw_loop str_to_int fmt_label img detections ops
      | Some v \<Rightarrow>
          (case unpack2_int str_to_int v of
             Inl e \<Rightarrow> Inl e
           | Inr (x, y0) \<Rightarrow>
               (case shape img of
                  [] \<Rightarrow> Inl IndexError
                | h # rest \<Rightarrow>
                    (let y = int h - y0 in
                     case fmt_label (dict_get det ''class'' (JStr [])) (dict_get det ''confidence'' (JInt 0)) of
                       Inl e \<Rightarrow> Inl e
                     | Inr label \<Rightarrow>
                         draw_loop str_to_int fmt_label img detections
                           (ops @ [Circle x y, PutText label (x + 10) y])))))"

definition draw_detections ::
  "(string \<Rightarrow> int option) \<Rightarrow> (json \<Rightarrow> json \<Rightarrow> py_error + string) \<Rightarrow> image \<Rightarrow> dict list
     \<Rightarrow> py_error + draw_op list" where
  "draw_detections str_to_int fmt_label img detections =
     draw_loop str_to_int fmt_label img detections []"

text \<open>The rows of the circles drawn, in drawing order.\<close>

fun circle_rows :: "draw_op list \<Rightarrow> int list" where
  "circle_rows [] = []"
| "circle_rows (Circle x y # ops) = y # circle_rows ops"
| "circle_rows (PutText l x y # ops) = circle_rows ops"

text \<open>
  The float format as far as the round trip of the two flips needs it: rounding is
  monotone and leaves the integers up to \<open>2 ^ 53\<close> as they are.
\<close>

definition float_rounding :: "(real \<Rightarrow> real) \<Rightarrow> bool" where
  "float_rounding r \<longleftrightarrow>
     (\<forall>x y. x \<le> y \<longrightarrow> r x \<le> r y) \<and>
     (\<forall>k::int. \<bar>k\<bar> \<le> 2 ^ 53 \<longrightarrow> r (real_of_int k) = real_of_int k)"

section \<open>A concrete sender\<close>

text \<open>
  A sender with exact arithmetic whose model finds a cube and a person in every
  image, a frame of height 100 and width 200, and a coarse float format that rounds
  to the nearest quarter; the theorems on the sender and the monitor are instantiated
  with them.
\<close>

definition quarter :: "real \<Rightarrow> real" where
  "quarter x = real_of_int \<lfloor>x * 4 + 1 / 2\<rfloor> / 4"

definition demo_env :: sender_env where
  "demo_env =
     \<lparr>encode_image_to_base64 = (\<lambda>img. ''abc''),
      strftime_now = ''20240101_120000'',
      rnd = (\<lambda>x. x),
      get_cropped_image = (\<lambda>frame. frame),
      names = [(0, ''cube''), (1, ''person'')],
      model = (\<lambda>img. [\<lparr>cls = 0, conf = 9 / 10, xyxy = (10, 20, 30, 611 / 10)\<rparr>,
                       \<lparr>cls = 1, conf = 1 / 2, xyxy = (0, 0, 10, 10)\<rparr>])\<rparr>"

definition demo_frame :: image where
  "demo_frame = \<lparr>shape = [100, 200, 3], pixels = []\<rparr>"

section \<open>Facts about the store\<close>

text \<open>Stamping the timestamp does not change the channel a dictionary is routed to.\<close>

lemma is_raw_stamped: "is_raw (stamped p) = is_raw (snd p)"
  by (simp add: is_raw_def stamped_def dict_get_def update_conv')

text \<open>The two results of \<open>store_data\<close>, by channel.\<close>

lemma store_data_state:
  "snd (store_data now d s) =
     (if is_raw d then
        s\<lparr>latest_raw_data := stamped (now, d),
          raw_history :=
            (if length (raw_history s @ [stamped (now, d)]) > max_history s
             then tl (raw_history s @ [stamped (now, d)])
             else raw_history s @ [stamped (now, d)])\<rparr>
      else
        s\<lparr>latest_data := stamped (now, d),
          detection_history :=
            (if length (detection_history s @ [stamped (now, d)]) > max_history s
             then tl (detection_history s @ [stamped (now, d)])
             else detection_history s @ [stamped (now, d)])\<rparr>)"
  using is_raw_stamped [of "(now, d)"]
  by (simp add: store_data_def Let_def is_raw_def stamped_def)

lemma store_data_dict: "fst (store_data now d s) = stamped (now, d)"
  by (simp add: store_data_def Let_def stamped_def)

lemma store_all_snoc:
  "store_all (ps @ [p]) s = snd (store_data (fst p) (snd p) (store_all ps s))"
  by (induction ps arbitrary: s) simp_all

lemma max_history_store_all: "max_history (store_all ps s) = max_history s"
  by (induction ps arbitrary: s) (simp_all add: store_data_state)

text \<open>
  Appending to a history that holds the last \<open>m\<close> items of \<open>zs\<close> and popping the first
  item when the length exceeds \<open>m\<close> gives the last \<open>m\<close> items of \<open>zs @ [x]\<close>.
\<close>

lemma bounded_append:
  assumes "length h \<le> m" and "h = drop (length zs - m) zs"
  shows "(if length (h @ [x]) > m then tl (h @ [x]) else h @ [x]) =
     drop (length (zs @ [x]) - m) (zs @ [x])"
proof (cases "length zs < m")
  case True
  with assms show ?thesis by simp
next
  case False
  then have len: "length h = m" using assms by simp
  show ?thesis
  proof (cases m)
    case 0
    with assms show ?thesis by simp
  next
    case (Suc k)
    with len have "h \<noteq> []" by auto
    then have "tl (h @ [x]) = tl h @ [x]" by simp
    also have "tl h = drop (Suc (length zs - m)) zs"
      using assms(2) by (simp add: drop_Suc tl_drop)
    finally have step: "tl (h @ [x]) = drop (Suc (length zs - m)) zs @ [x]" .
    have idx: "length (zs @ [x]) - m = Suc (length zs - m)"
      using False by simp
    have "drop (Suc (length zs - m)) (zs @ [x]) = drop (Suc (length zs - m)) zs @ [x]"
      using False Suc by simp
    with step idx len show ?thesis by simp
  qed
qed

lemma latest_raw_store_all:
  "latest_raw_data (store_all ps s) =
     (if filter (\<lambda>p. is_raw (snd p)) ps = [] then latest_raw_data s
      else stamped (last (filter (\<lambda>p. is_raw (snd p)) ps)))"
  by (induction ps rule: rev_induct) (simp_all add: store_all_snoc store_data_state)

lemma latest_store_all:
  "latest_data (store_all ps s) =
     (if filter (\<lambda>p. \<not> is_raw (snd p)) ps = [] then latest_data s
      else stamped (last (filter (\<lambda>p. \<not> is_raw (snd p)) ps)))"
  by (induction ps rule: rev_induct) (simp_all add: store_all_snoc store_data_state)

lemma detection_history_store_all:
  assumes "length (detection_history s) \<le> max_history s"
  shows "detection_history (store_all ps s) =
           drop (length (detection_history s @ map stamped (filter (\<lambda>p. \<not> is_raw (snd p)) ps))
                   - max_history s)
             (detection_history s @ map stamped (filter (\<lambda>p. \<not> is_raw (snd p)) ps))"
proof (induction ps rule: rev_induct)
  case Nil
  with assms show ?case by simp
next
  case (snoc p ps)
  let ?zs = "detection_history s @ map stamped (filter (\<lambda>p. \<not> is_raw (snd p)) ps)"
  let ?h = "detection_history (store_all ps s)"
  have h: "?h = drop (length ?zs - max_history s) ?zs" by (rule snoc.IH)
  then have len: "length ?h \<le> max_history s" by simp
  show ?case
  proof (cases "is_raw (snd p)")
    case True
    with h show ?thesis by (simp add: store_all_snoc store_data_state)
  next
    case False
    have "detection_history (store_all (ps @ [p]) s) =
            (if length (?h @ [stamped p]) > max_history s then tl (?h @ [stamped p])
             else ?h @ [stamped p])"
      using False by (simp add: store_all_snoc store_data_state max_history_store_all)
    also have "\<dots> = drop (length (?zs @ [stamped p]) - max_history s) (?zs @ [stamped p])"
      using len h by (rule bounded_append)
    finally show ?thesis using False by simp
  qed
qed

lemma raw_history_store_all:
  assumes "length (raw_history s) \<le> max_history s"
  shows "raw_history (store_all ps s) =
           drop (length (raw_history s @ map stamped (filter (\<lambda>p. is_raw (snd p)) ps))
                   - max_history s)
             (raw_history s @ map stamped (filter (\<lambda>p. is_raw (snd p)) ps))"
proof (induction ps rule: rev_induct)
  case Nil
  with assms show ?case by simp
next
  case (snoc p ps)
  let ?zs = "raw_history s @ map stamped (filter (\<lambda>p. is_raw (snd p)) ps)"
  let ?h = "raw_history (store_all ps s)"
  have h: "?h = drop (length ?zs - max_history s) ?zs" by (rule snoc.IH)
  then have len: "length ?h \<le> max_history s" by simp
  show ?case
  proof (cases "is_raw (snd p)")
    case False
    with h show ?thesis by (simp add: store_all_snoc store_data_state)
  next
    case True
    have "raw_history (store_all (ps @ [p]) s) =
            (if length (?h @ [stamped p]) > max_history s then tl (?h @ [stamped p])
             else ?h @ [stamped p])"
      using True by (simp add: store_all_snoc store_data_state max_history_store_all)
    also have "\<dots> = drop (length (?zs @ [stamped p]) - max_history s) (?zs @ [stamped p])"
      using len h by (rule bounded_append)
    finally show ?thesis using True by simp
  qed
qed

section \<open>Clearing the store\<close>

text \<open>
  C7. After \<open>clear_data\<close> both latest values are the empty dictionary and both
  histories are empty, so both latest getters return the empty dictionary; clearing
  twice gives the same state as clearing once.
\<close>

theorem clear_data_empties_and_idempotent:
  "get_latest_data (clear_data s) = [] \<and>
   get_latest_raw_data (clear_data s) = [] \<and>
   get_history (clear_data s) = [] \<and>
   get_raw_history (clear_data s) = [] \<and>
   clear_data (clear_data s) = clear_data s"
  by (simp add: clear_data_def get_latest_data_def get_latest_raw_data_def
      get_history_def get_raw_history_def)

section \<open>Latest value of a channel\<close>

text \<open>
  C3. \<open>store_data\<close> leaves the dictionary it is given with the receipt time as its
  timestamp, and that dictionary is what it stores. After any sequence of calls, from
  any state, the raw-latest getter returns the last dictionary stored with a true
  \<open>raw_image\<close> and the processed-latest getter the last one stored without (the value
  before the calls when there is none). The value does not depend on the capacity of
  the histories, hence not on what has been evicted.
\<close>

theorem get_latest_is_last_stored:
  "fst (store_data now d s) = stamped (now, d) \<and>
   get_latest_raw_data (store_all ps s) =
     (if filter (\<lambda>p. is_raw (snd p)) ps = [] then get_latest_raw_data s
      else stamped (last (filter (\<lambda>p. is_raw (snd p)) ps))) \<and>
   get_latest_data (store_all ps s) =
     (if filter (\<lambda>p. \<not> is_raw (snd p)) ps = [] then get_latest_data s
      else stamped (last (filter (\<lambda>p. \<not> is_raw (snd p)) ps))) \<and>
   get_latest_raw_data (store_all ps (s\<lparr>max_history := m\<rparr>)) =
     get_latest_raw_data (store_all ps s) \<and>
   get_latest_data (store_all ps (s\<lparr>max_history := m\<rparr>)) =
     get_latest_data (store_all ps s)"
  by (simp add: get_latest_raw_data_def get_latest_data_def latest_raw_store_all
      latest_store_all store_data_dict)

section \<open>Bounded histories\<close>

text \<open>
  C4. Starting from the empty store, after any sequence of calls each history is the
  last 100 dictionaries stored to its channel, in arrival order, so its length is at
  most 100 and the oldest entries are the ones evicted. When 101 dictionaries are
  stored to one channel, its history has length 100 and starts with the second one,
  and the latest value is the 101st.
\<close>

theorem history_bounded_fifo:
  "get_history (store_all ps DataStorage_init) =
     drop (length (filter (\<lambda>p. \<not> is_raw (snd p)) ps) - 100)
       (map stamped (filter (\<lambda>p. \<not> is_raw (snd p)) ps)) \<and>
   get_raw_history (store_all ps DataStorage_init) =
     drop (length (filter (\<lambda>p. is_raw (snd p)) ps) - 100)
       (map stamped (filter (\<lambda>p. is_raw (snd p)) ps)) \<and>
   length (get_history (store_all ps DataStorage_init)) \<le> 100 \<and>
   length (get_raw_history (store_all ps DataStorage_init)) \<le> 100 \<and>
   (length ps = 101 \<and> (\<forall>p \<in> set ps. \<not> is_raw (snd p)) \<longrightarrow>
      length (get_history (store_all ps DataStorage_init)) = 100 \<and>
      hd (get_history (store_all ps DataStorage_init)) = stamped (ps ! 1) \<and>
      get_latest_data (store_all ps DataStorage_init) = stamped (ps ! 100)) \<and>
   (length ps = 101 \<and> (\<forall>p \<in> set ps. is_raw (snd p)) \<longrightarrow>
      length (get_raw_history (store_all ps DataStorage_init)) = 100 \<and>
      hd (get_raw_history (store_all ps DataStorage_init)) = stamped (ps ! 1) \<and>
      get_latest_raw_data (store_all ps DataStorage_init) = stamped (ps ! 100))"
proof -
  let ?procs = "filter (\<lambda>p. \<not> is_raw (snd p)) ps"
  let ?raws = "filter (\<lambda>p. is_raw (snd p)) ps"
  have hp: "get_history (store_all ps DataStorage_init) =
      drop (length ?procs - 100) (map stamped ?procs)"
    using detection_history_store_all [of DataStorage_init ps]
    by (simp add: get_history_def DataStorage_init_def)
  have hr: "get_raw_history (store_all ps DataStorage_init) =
      drop (length ?raws - 100) (map stamped ?raws)"
    using raw_history_store_all [of DataStorage_init ps]
    by (simp add: get_raw_history_def DataStorage_init_def)
  have lp: "length (get_history (store_all ps DataStorage_init)) \<le> 100"
    unfolding hp by simp
  have lr: "length (get_raw_history (store_all ps DataStorage_init)) \<le> 100"
    unfolding hr by simp
  have sp: "length (get_history (store_all ps DataStorage_init)) = 100 \<and>
      hd (get_history (store_all ps DataStorage_init)) = stamped (ps ! 1) \<and>
      get_latest_data (store_all ps DataStorage_init) = stamped (ps ! 100)"
    if len: "length ps = 101" and all: "\<forall>p \<in> set ps. \<not> is_raw (snd p)"
  proof -
    from all have f: "?procs = ps" by simp
    from len have ne: "ps \<noteq> []" by auto
    have "hd (drop 1 (map stamped ps)) = map stamped ps ! 1"
      using len by (intro hd_drop_conv_nth) simp
    moreover have "last ps = ps ! 100"
      using len ne by (simp add: last_conv_nth)
    ultimately show ?thesis
      using len ne by (simp add: hp f get_latest_data_def latest_store_all)
  qed
  have sr: "length (get_raw_history (store_all ps DataStorage_init)) = 100 \<and>
      hd (get_raw_history (store_all ps DataStorage_init)) = stamped (ps ! 1) \<and>
      get_latest_raw_data (store_all ps DataStorage_init) = stamped (ps ! 100)"
    if len: "length ps = 101" and all: "\<forall>p \<in> set ps. is_raw (snd p)"
  proof -
    from all have f: "?raws = ps" by simp
    from len have ne: "ps \<noteq> []" by auto
    have "hd (drop 1 (map stamped ps)) = map stamped ps ! 1"
      using len by (intro hd_drop_conv_nth) simp
    moreover have "last ps = ps ! 100"
      using len ne by (simp add: last_conv_nth)
    ultimately show ?thesis
      using len ne by (simp add: hr f get_latest_raw_data_def latest_raw_store_all)
  qed
  from hp hr lp lr sp sr show ?thesis by blast
qed

theorem history_bounded_fifo_witness:
  "length (map (\<lambda>i. (real i, [(''seq'', JInt (int i))])) [1..<102]) = 101 \<and>
   length (get_history
     (store_all (map (\<lambda>i. (real i, [(''seq'', JInt (int i))])) [1..<102]) DataStorage_init)) = 100 \<and>
   hd (get_history
     (store_all (map (\<lambda>i. (real i, [(''seq'', JInt (int i))])) [1..<102]) DataStorage_init)) =
     [(''seq'', JInt 2), (''timestamp'', JFloat 2)] \<and>
   get_latest_data
     (store_all (map (\<lambda>i. (real i, [(''seq'', JInt (int i))])) [1..<102]) DataStorage_init) =
     [(''seq'', JInt 101), (''timestamp'', JFloat 101)]"
proof -
  let ?ps = "map (\<lambda>i. (real i, [(''seq'', JInt (int i))])) [1..<102]"
  have len: "length ?ps = 101" by simp
  have proc: "\<forall>p \<in> set ?ps. \<not> is_raw (snd p)"
    by (simp add: is_raw_def dict_get_def)
  have n1: "?ps ! 1 = (2, [(''seq'', JInt 2)])" by simp
  have n100: "?ps ! 100 = (101, [(''seq'', JInt 101)])" by simp
  from len proc history_bounded_fifo [of ?ps]
  have "length (get_history (store_all ?ps DataStorage_init)) = 100 \<and>
      hd (get_history (store_all ?ps DataStorage_init)) = stamped (?ps ! 1) \<and>
      get_latest_data (store_all ?ps DataStorage_init) = stamped (?ps ! 100)"
    by blast
  then show ?thesis
    unfolding n1 n100 by (simp add: stamped_def)
qed

section \<open>The timestamp\<close>

text \<open>
  C5, as stated, fails: a payload that carries a timestamp, as every payload of the
  sender does, is stored with the receipt time in its place.
\<close>

theorem store_keeps_timestamp_counterexample:
  "dict_get
     (get_latest_data
        (snd (store_data 1700000000
           [(''image'', JStr ''abc''), (''timestamp'', JStr ''20240101_120000''),
            (''detections'', JList []), (''crop_shape'', JList [JInt 4, JInt 3]),
            (''raw_image'', JBool False)]
           DataStorage_init)))
     ''timestamp'' JNull
   \<noteq> dict_get
     [(''image'', JStr ''abc''), (''timestamp'', JStr ''20240101_120000''),
      (''detections'', JList []), (''crop_shape'', JList [JInt 4, JInt 3]),
      (''raw_image'', JBool False)]
     ''timestamp'' JNull"
  by (simp add: store_data_def Let_def dict_get_def get_latest_data_def DataStorage_init_def)

text \<open>
  C5, amended. \<open>store_data\<close> always sets the timestamp of the payload to the receipt
  time, whether or not the payload carried one; every other key keeps its value, and
  the dictionary so changed is the latest value of its channel.
\<close>

theorem store_data_sets_timestamp:
  "map_of (fst (store_data now d s)) ''timestamp'' = Some (JFloat now) \<and>
   (\<forall>k. k \<noteq> ''timestamp'' \<longrightarrow> map_of (fst (store_data now d s)) k = map_of d k) \<and>
   (if is_raw d then get_latest_raw_data (snd (store_data now d s))
    else get_latest_data (snd (store_data now d s))) = fst (store_data now d s)"
  by (simp add: store_data_dict store_data_state stamped_def update_conv'
      get_latest_raw_data_def get_latest_data_def)

theorem store_data_sets_timestamp_witness:
  "map_of
     (fst (store_data 1700000000
        [(''image'', JStr ''abc''), (''timestamp'', JStr ''20240101_120000'')] DataStorage_init))
     ''timestamp'' = Some (JFloat 1700000000) \<and>
   ''image'' \<noteq> ''timestamp'' \<and>
   map_of
     (fst (store_data 1700000000
        [(''image'', JStr ''abc''), (''timestamp'', JStr ''20240101_120000'')] DataStorage_init))
     ''image'' = Some (JStr ''abc'')"
  using store_data_sets_timestamp [of 1700000000
      "[(''image'', JStr ''abc''), (''timestamp'', JStr ''20240101_120000'')]" DataStorage_init]
  by simp

section \<open>Independence of the two channels\<close>

text \<open>
  C6. Storing a dictionary with a true \<open>raw_image\<close> leaves the latest value and the
  history of the processed channel as they were, and storing one without leaves the
  latest value and the history of the raw channel as they were.
\<close>

theorem store_data_frame:
  "(is_raw d \<longrightarrow>
      get_latest_data (snd (store_data now d s)) = get_latest_data s \<and>
      get_history (snd (store_data now d s)) = get_history s) \<and>
   (\<not> is_raw d \<longrightarrow>
      get_latest_raw_data (snd (store_data now d s)) = get_latest_raw_data s \<and>
      get_raw_history (snd (store_data now d s)) = get_raw_history s)"
  by (simp add: store_data_state get_latest_data_def get_history_def
      get_latest_raw_data_def get_raw_history_def)

theorem store_data_frame_witness:
  "is_raw [(''image'', JStr ''r''), (''raw_image'', JBool True)] \<and>
   \<not> is_raw [(''image'', JStr ''p'')] \<and>
   get_latest_data
     (snd (store_data 2 [(''image'', JStr ''r''), (''raw_image'', JBool True)]
        (snd (store_data 1 [(''image'', JStr ''p'')] DataStorage_init)))) =
     [(''image'', JStr ''p''), (''timestamp'', JFloat 1)] \<and>
   get_history
     (snd (store_data 2 [(''image'', JStr ''r''), (''raw_image'', JBool True)]
        (snd (store_data 1 [(''image'', JStr ''p'')] DataStorage_init)))) =
     [[(''image'', JStr ''p''), (''timestamp'', JFloat 1)]] \<and>
   get_latest_raw_data
     (snd (store_data 1 [(''image'', JStr ''p'')] DataStorage_init)) = [] \<and>
   get_raw_history
     (snd (store_data 1 [(''image'', JStr ''p'')] DataStorage_init)) = []"
  using
    store_data_frame [of "[(''image'', JStr ''r''), (''raw_image'', JBool True)]" 2
      "snd (store_data 1 [(''image'', JStr ''p'')] DataStorage_init)"]
    store_data_frame [of "[(''image'', JStr ''p'')]" 1 DataStorage_init]
  by (simp add: store_data_state stamped_def is_raw_def dict_get_def DataStorage_init_def
      get_latest_data_def get_history_def get_latest_raw_data_def get_raw_history_def)

section \<open>Submissions without an image\<close>

text \<open>
  C1, as stated, fails: a JSON object without an \<open>image\<close> key is answered with
  status 200 and stored as the latest processed value and in the processed history.
\<close>

theorem receive_data_missing_image_counterexample:
  "receive_data (Some (\<lambda>c. None)) 10
     \<lparr>is_json = True, get_json = Inr (JDict [(''detections'', JList [])])\<rparr>
     (Some DataStorage_init) =
   (Response200 0,
    Some \<lparr>latest_data = [(''detections'', JList []), (''timestamp'', JFloat 10)],
          latest_raw_data = [],
          detection_history = [[(''detections'', JList []), (''timestamp'', JFloat 10)]],
          raw_history = [],
          max_history = 100\<rparr>) \<and>
   map_of [(''detections'', JList [])] ''image'' = None \<and>
   get_latest_data
     \<lparr>latest_data = [(''detections'', JList []), (''timestamp'', JFloat 10)],
      latest_raw_data = [],
      detection_history = [[(''detections'', JList []), (''timestamp'', JFloat 10)]],
      raw_history = [],
      max_history = 100\<rparr> \<noteq> get_latest_data DataStorage_init"
  by (simp add: receive_data_def store_content_def store_data_def Let_def dict_get_def
      received_count_def DataStorage_init_def get_latest_data_def)

text \<open>
  C1, amended. \<open>receive_data\<close> does not look at the \<open>image\<close> key. It rejects a request
  without touching the store when the request is not JSON (status 415), when its body
  does not parse, and when the body is not a JSON object (status 500). Every JSON
  object, with or without an \<open>image\<close> key, is stored by \<open>store_data\<close>; the answer is
  then status 200 with the number of detections, or status 500 when the BLE send or
  the count of the detections raises.
\<close>

theorem receive_data_rejections:
  "receive_data ble now \<lparr>is_json = False, get_json = body\<rparr> st = (Response415, st) \<and>
   receive_data ble now \<lparr>is_json = True, get_json = Inl e\<rparr> st = (Response500 e, st) \<and>
   ((\<forall>d. content \<noteq> JDict d) \<longrightarrow>
      receive_data ble now \<lparr>is_json = True, get_json = Inr content\<rparr> (Some s) =
        (Response500 TypeError, Some s)) \<and>
   receive_data ble now \<lparr>is_json = True, get_json = Inr (JDict d)\<rparr> (Some s) =
     (case (case ble of None \<Rightarrow> None
            | Some send_data \<Rightarrow> send_data (JDict (fst (store_data now d s)))) of
        Some e \<Rightarrow> Response500 e
      | None \<Rightarrow>
          (case py_len (dict_get d ''detections'' (JList [])) of
             Inl e \<Rightarrow> Response500 e
           | Inr n \<Rightarrow> Response200 n),
      Some (snd (store_data now d s)))"
proof -
  have nd: "receive_data ble now \<lparr>is_json = True, get_json = Inr content\<rparr> (Some s) =
        (Response500 TypeError, Some s)" if "\<forall>d. content \<noteq> JDict d"
    using that by (cases content) (simp_all add: receive_data_def store_content_def)
  have cnt: "received_count (JDict (fst (store_data now d s))) =
      py_len (dict_get d ''detections'' (JList []))"
    by (simp add: received_count_def store_data_dict stamped_def dict_get_def update_conv')
  have ok: "receive_data ble now \<lparr>is_json = True, get_json = Inr (JDict d)\<rparr> (Some s) =
     (case (case ble of None \<Rightarrow> None
            | Some send_data \<Rightarrow> send_data (JDict (fst (store_data now d s)))) of
        Some e \<Rightarrow> Response500 e
      | None \<Rightarrow>
          (case py_len (dict_get d ''detections'' (JList [])) of
             Inl e \<Rightarrow> Response500 e
           | Inr n \<Rightarrow> Response200 n),
      Some (snd (store_data now d s)))"
    by (simp add: receive_data_def store_content_def cnt split: sum.splits option.splits)
  show ?thesis
    using nd ok by (simp add: receive_data_def)
qed

theorem receive_data_rejections_witness:
  "(\<forall>d. JList [] \<noteq> JDict d) \<and>
   receive_data None 10 \<lparr>is_json = True, get_json = Inr (JList [])\<rparr> (Some DataStorage_init) =
     (Response500 TypeError, Some DataStorage_init) \<and>
   receive_data None 10 \<lparr>is_json = False, get_json = Inr (JList [])\<rparr> (Some DataStorage_init) =
     (Response415, Some DataStorage_init)"
  using receive_data_rejections [where ble = None and now = 10 and body = "Inr (JList [])"
      and st = "Some DataStorage_init" and content = "JList []" and s = DataStorage_init]
  by simp

section \<open>Facts about the sender and the monitor\<close>

lemma target_ids_lookup:
  "c \<in> set (target_ids nms) \<Longrightarrow> \<exists>n. map_of nms c = Some n"
proof -
  assume "c \<in> set (target_ids nms)"
  then have "c \<in> fst ` set nms" by (auto simp: target_ids_def)
  then have "map_of nms c \<noteq> None" by (simp add: map_of_eq_None_iff)
  then show ?thesis by auto
qed

lemma dets_loop_total:
  "\<exists>ds. dets_loop env (target_ids (names env)) h boxes dets = Inr ds"
proof (induction boxes arbitrary: dets)
  case Nil
  show ?case by simp
next
  case (Cons b boxes)
  show ?case
  proof (cases "trunc (cls b) \<in> set (target_ids (names env))")
    case False
    with Cons.IH show ?thesis by simp
  next
    case True
    then obtain n where "map_of (names env) (trunc (cls b)) = Some n"
      using target_ids_lookup by blast
    with True Cons.IH show ?thesis by simp
  qed
qed

lemma dets_loop_centers:
  "dets_loop env ids h boxes dets = Inr ds \<Longrightarrow>
   map (\<lambda>d. map_of d ''center_px'') ds =
     map (\<lambda>d. map_of d ''center_px'') dets @
     map (\<lambda>b. Some (JList [JFloat (center_x (rnd env) b),
                           JFloat (fsub (rnd env) (to_float (rnd env) (int h))
                                     (center_y (rnd env) b))]))
       (filter (\<lambda>b. trunc (cls b) \<in> set ids) boxes)"
proof (induction boxes arbitrary: dets)
  case Nil
  then show ?case by simp
next
  case (Cons b boxes)
  show ?case
  proof (cases "trunc (cls b) \<in> set ids")
    case False
    with Cons show ?thesis by simp
  next
    case True
    with Cons.prems obtain n where n: "map_of (names env) (trunc (cls b)) = Some n"
      by (auto split: option.splits)
    with True Cons.prems Cons.IH [of "dets @
                [[(''class'', JStr n),
                  (''confidence'', JFloat (conf b)),
                  (''center_px'',
                     JList [JFloat (center_x (rnd env) b),
                            JFloat (fsub (rnd env) (to_float (rnd env) (int h))
                                      (center_y (rnd env) b))])]]"]
    show ?thesis by simp
  qed
qed

lemma to_float_exact:
  "float_rounding r \<Longrightarrow> h \<le> 2 ^ 53 \<Longrightarrow> to_float r (int h) = real h"
proof -
  assume r: "float_rounding r" and h: "h \<le> 2 ^ 53"
  from h have "int h \<le> 2 ^ 53"
    by (metis of_nat_le_iff of_nat_numeral of_nat_power)
  then have "\<bar>int h\<bar> \<le> 2 ^ 53" by simp
  with r have "r (real_of_int (int h)) = real_of_int (int h)"
    unfolding float_rounding_def by blast
  then show ?thesis by (simp add: to_float_def)
qed

lemma circle_rows_append: "circle_rows (xs @ ys) = circle_rows xs @ circle_rows ys"
  by (induction xs rule: circle_rows.induct) simp_all

lemma unpack2_int_floats:
  "unpack2_int str_to_int (JList [JFloat x, JFloat y]) = Inr (trunc x, trunc y)"
  by (simp add: unpack2_int_def)

lemma draw_loop_rows:
  assumes "shape img = H # rest"
  shows "map (\<lambda>d. map_of d ''center_px'') dets =
           map (\<lambda>b. Some (JList [JFloat (fx b), JFloat (fy b)])) bs \<Longrightarrow>
         draw_loop str_to_int fmt_label img dets ops = Inr ops' \<Longrightarrow>
         circle_rows ops' = circle_rows ops @ map (\<lambda>b. int H - trunc (fy b)) bs"
proof (induction dets arbitrary: bs ops)
  case Nil
  then show ?case by simp
next
  case (Cons det dets)
  from Cons.prems(1) obtain b bs' where bs: "bs = b # bs'"
    and c: "map_of det ''center_px'' = Some (JList [JFloat (fx b), JFloat (fy b)])"
    and rest: "map (\<lambda>d. map_of d ''center_px'') dets =
           map (\<lambda>b. Some (JList [JFloat (fx b), JFloat (fy b)])) bs'"
    by (cases bs) auto
  from Cons.prems(2) c assms obtain label where
    "draw_loop str_to_int fmt_label img dets
       (ops @ [Circle (trunc (fx b)) (int H - trunc (fy b)),
               PutText label (trunc (fx b) + 10) (int H - trunc (fy b))]) = Inr ops'"
    by (auto simp: unpack2_int_floats Let_def split: sum.splits)
  from Cons.IH [OF rest this] show ?case
    by (simp add: bs circle_rows_append)
qed

lemma float_rounding_quarter: "float_rounding quarter"
proof -
  have "quarter x \<le> quarter y" if "x \<le> y" for x y
  proof -
    from that have "\<lfloor>x * 4 + 1 / 2\<rfloor> \<le> \<lfloor>y * 4 + 1 / 2\<rfloor>"
      by (intro floor_mono) simp
    then show ?thesis by (simp add: quarter_def divide_right_mono)
  qed
  moreover have "quarter (real_of_int k) = real_of_int k" for k
  proof -
    have "\<lfloor>real_of_int k * 4 + 1 / 2\<rfloor> = k * 4"
      by (simp add: floor_unique)
    then show ?thesis by (simp add: quarter_def)
  qed
  ultimately show ?thesis by (simp add: float_rounding_def)
qed

text \<open>
  The two flips and the truncation between them: for a centre inside the frame the
  row drawn is less than one pixel away from the centre the detector gave.
\<close>

lemma flip_round_trip:
  assumes r: "float_rounding r" and h: "h \<le> 2 ^ 53"
    and lo: "0 \<le> cy" and hi: "cy \<le> real h"
  shows "\<bar>real_of_int (int h - trunc (fsub r (to_float r (int h)) cy)) - cy\<bar> < 1"
proof -
  let ?z = "real h - cy"
  have mono: "\<And>x y. x \<le> y \<Longrightarrow> r x \<le> r y"
    and fixed: "\<And>k::int. \<bar>k\<bar> \<le> 2 ^ 53 \<Longrightarrow> r (real_of_int k) = real_of_int k"
    using r unfolding float_rounding_def by blast+
  have hb: "int h \<le> 2 ^ 53"
    using h by (metis of_nat_le_iff of_nat_numeral of_nat_power)
  have z0: "0 \<le> ?z" and zh: "?z \<le> real h" using lo hi by simp_all
  have f0: "0 \<le> \<lfloor>?z\<rfloor>" using z0 by simp
  have fh: "\<lfloor>?z\<rfloor> \<le> int h" using zh by (simp add: floor_le_iff)
  have c0: "0 \<le> \<lceil>?z\<rceil>" using z0 by (simp add: le_ceiling_iff)
  have ch: "\<lceil>?z\<rceil> \<le> int h" using zh by (simp add: ceiling_le_iff)
  have rf: "r (real_of_int \<lfloor>?z\<rfloor>) = real_of_int \<lfloor>?z\<rfloor>"
    using f0 fh hb by (intro fixed) linarith
  have rc: "r (real_of_int \<lceil>?z\<rceil>) = real_of_int \<lceil>?z\<rceil>"
    using c0 ch hb by (intro fixed) linarith
  have lower: "real_of_int \<lfloor>?z\<rfloor> \<le> r ?z"
    using mono [of "real_of_int \<lfloor>?z\<rfloor>" ?z] rf by simp
  have upper: "r ?z \<le> real_of_int \<lceil>?z\<rceil>"
    using mono [of ?z "real_of_int \<lceil>?z\<rceil>"] rc by simp
  have nonneg: "0 \<le> r ?z" using lower f0 by linarith
  have t: "trunc (fsub r (to_float r (int h)) cy) = \<lfloor>r ?z\<rfloor>"
    using nonneg to_float_exact [OF r h] by (simp add: trunc_def fsub_def)
  have t1: "\<lfloor>?z\<rfloor> \<le> \<lfloor>r ?z\<rfloor>" using lower by (simp add: le_floor_iff)
  have t2: "\<lfloor>r ?z\<rfloor> \<le> \<lceil>?z\<rceil>" using upper by (simp add: floor_le_iff)
  have "?z - 1 < real_of_int \<lfloor>?z\<rfloor>" and "real_of_int \<lceil>?z\<rceil> < ?z + 1"
    by linarith+
  with t1 t2 have "\<bar>?z - real_of_int \<lfloor>r ?z\<rfloor>\<bar> < 1"
    by linarith
  then show ?thesis unfolding t by simp
qed

lemma near_integer:
  "\<bar>real_of_int row - y\<bar> < 1 \<Longrightarrow> y \<in> \<int> \<Longrightarrow> real_of_int row = y"
proof -
  assume a: "\<bar>real_of_int row - y\<bar> < 1" and "y \<in> \<int>"
  then obtain k :: int where k: "y = real_of_int k" by (auto elim: Ints_cases)
  with a have "\<bar>real_of_int (row - k)\<bar> < 1" by simp
  then have "\<bar>row - k\<bar> < 1" by linarith
  then show ?thesis using k by simp
qed

section \<open>Raw mode\<close>

text \<open>
  C9. In a pass of the loop in raw mode everything submitted has the empty list of
  detections and \<open>raw_image\<close> true, and the detector is not called; a frame with three
  dimensions is submitted.
\<close>

theorem raw_mode_submission:
  "(\<forall>e \<in> set (fst (main_iteration env True frame)).
      \<exists>p. e = Submit p \<and> map_of p ''detections'' = Some (JList []) \<and>
          map_of p ''raw_image'' = Some (JBool True)) \<and>
   (\<forall>img. DetectorCall img \<notin> set (fst (main_iteration env True frame))) \<and>
   (frame = Some f \<and> shape f = [h, w, ch] \<longrightarrow>
      (\<exists>p. main_iteration env True frame = ([Submit p], None)))"
  by (auto simp: main_iteration_def send_image_data_def
      split: option.splits list.splits sum.splits)

theorem raw_mode_submission_witness:
  "shape demo_frame = [100, 200, 3] \<and>
   main_iteration demo_env True (Some demo_frame) =
     ([Submit [(''image'', JStr ''abc''), (''timestamp'', JStr ''20240101_120000''),
               (''detections'', JList []), (''crop_shape'', JList [JInt 200, JInt 100]),
               (''raw_image'', JBool True)]], None)"
  using raw_mode_submission [of demo_env "Some demo_frame" demo_frame 100 200 3]
  by (simp add: main_iteration_def send_image_data_def demo_env_def demo_frame_def)

section \<open>The coordinate flip of the sender\<close>

text \<open>
  C8. In processed mode, for a cropped frame of height \<open>h\<close>, the payload submitted
  carries one detection for each box of a target class, in order, whose \<open>center_px\<close>
  is the midpoint \<open>cx\<close> and the float difference of \<open>h\<close> and the midpoint \<open>cy\<close> of
  \<open>y1\<close> and \<open>y2\<close>. With the rounding of a float format and \<open>h\<close> at most \<open>2 ^ 53\<close> this is
  \<open>h - cy\<close> rounded once; with exact arithmetic it is \<open>h - (y1 + y2) / 2\<close>. Nothing else
  is done to the coordinate.
\<close>

theorem processed_mode_flip:
  assumes "get_cropped_image env frame = Some cropped" and "shape cropped = [h, w, ch]"
  shows "\<exists>dets.
    main_iteration env False frame =
      ([DetectorCall cropped,
        Submit [(''image'', JStr (encode_image_to_base64 env cropped)),
                (''timestamp'', JStr (strftime_now env)),
                (''detections'', JList (map JDict dets)),
                (''crop_shape'', JList [JInt (int w), JInt (int h)]),
                (''raw_image'', JBool False)]], None) \<and>
    map (\<lambda>d. map_of d ''center_px'') dets =
      map (\<lambda>b. Some (JList [JFloat (center_x (rnd env) b),
                            JFloat (rnd env (rnd env (real h) - center_y (rnd env) b))]))
        (filter (\<lambda>b. trunc (cls b) \<in> set (target_ids (names env))) (model env cropped)) \<and>
    (float_rounding (rnd env) \<and> h \<le> 2 ^ 53 \<longrightarrow>
       map (\<lambda>d. map_of d ''center_px'') dets =
         map (\<lambda>b. Some (JList [JFloat (center_x (rnd env) b),
                               JFloat (rnd env (real h - center_y (rnd env) b))]))
           (filter (\<lambda>b. trunc (cls b) \<in> set (target_ids (names env))) (model env cropped))) \<and>
    ((\<forall>x. rnd env x = x) \<longrightarrow>
       map (\<lambda>d. map_of d ''center_px'') dets =
         map (\<lambda>b. case xyxy b of (x1, y1, x2, y2) \<Rightarrow>
                  Some (JList [JFloat ((x1 + x2) / 2), JFloat (real h - (y1 + y2) / 2)]))
           (filter (\<lambda>b. trunc (cls b) \<in> set (target_ids (names env))) (model env cropped)))"
proof -
  let ?r = "rnd env"
  let ?kept = "filter (\<lambda>b. trunc (cls b) \<in> set (target_ids (names env))) (model env cropped)"
  obtain dets where dets:
    "dets_loop env (target_ids (names env)) h (model env cropped) [] = Inr dets"
    using dets_loop_total by blast
  have run: "main_iteration env False frame =
      ([DetectorCall cropped,
        Submit [(''image'', JStr (encode_image_to_base64 env cropped)),
                (''timestamp'', JStr (strftime_now env)),
                (''detections'', JList (map JDict dets)),
                (''crop_shape'', JList [JInt (int w), JInt (int h)]),
                (''raw_image'', JBool False)]], None)"
    using assms dets by (simp add: main_iteration_def send_image_data_def)
  have c: "map (\<lambda>d. map_of d ''center_px'') dets =
      map (\<lambda>b. Some (JList [JFloat (center_x ?r b),
                            JFloat (?r (?r (real h) - center_y ?r b))])) ?kept"
    using dets_loop_centers [OF dets] by (simp add: fsub_def to_float_def)
  have c1: "map (\<lambda>d. map_of d ''center_px'') dets =
      map (\<lambda>b. Some (JList [JFloat (center_x ?r b), JFloat (?r (real h - center_y ?r b))])) ?kept"
    if "float_rounding ?r" and "h \<le> 2 ^ 53"
    using c to_float_exact [OF that] by (simp add: to_float_def)
  have c2: "map (\<lambda>d. map_of d ''center_px'') dets =
      map (\<lambda>b. case xyxy b of (x1, y1, x2, y2) \<Rightarrow>
                  Some (JList [JFloat ((x1 + x2) / 2), JFloat (real h - (y1 + y2) / 2)])) ?kept"
    if "\<forall>x. ?r x = x"
    using c that
    by (simp add: center_x_def center_y_def fdiv_def fadd_def split: prod.splits)
  from run c c1 c2 show ?thesis by blast
qed

theorem processed_mode_flip_witness:
  "get_cropped_image demo_env (Some demo_frame) = Some demo_frame \<and>
   shape demo_frame = [100, 200, 3] \<and>
   float_rounding (rnd demo_env) \<and>
   (\<forall>x. rnd demo_env x = x) \<and>
   main_iteration demo_env False (Some demo_frame) =
     ([DetectorCall demo_frame,
       Submit [(''image'', JStr ''abc''), (''timestamp'', JStr ''20240101_120000''),
               (''detections'',
                  JList [JDict [(''class'', JStr ''cube''), (''confidence'', JFloat (9 / 10)),
                                (''center_px'', JList [JFloat 20, JFloat (1189 / 20)])]]),
               (''crop_shape'', JList [JInt 200, JInt 100]),
               (''raw_image'', JBool False)]], None)"
proof -
  have a: "get_cropped_image demo_env (Some demo_frame) = Some demo_frame"
    by (simp add: demo_env_def)
  have b: "shape demo_frame = [100, 200, 3]"
    by (simp add: demo_frame_def)
  have fr: "float_rounding (rnd demo_env)"
    by (simp add: float_rounding_def demo_env_def)
  have ex: "\<forall>x. rnd demo_env x = x"
    by (simp add: demo_env_def)
  from processed_mode_flip [OF a b] obtain dets where
    "main_iteration demo_env False (Some demo_frame) =
      ([DetectorCall demo_frame,
        Submit [(''image'', JStr (encode_image_to_base64 demo_env demo_frame)),
                (''timestamp'', JStr (strftime_now demo_env)),
                (''detections'', JList (map JDict dets)),
                (''crop_shape'', JList [JInt (int 200), JInt (int 100)]),
                (''raw_image'', JBool False)]], None)"
    by blast
  moreover have "main_iteration demo_env False (Some demo_frame) =
     ([DetectorCall demo_frame,
       Submit [(''image'', JStr ''abc''), (''timestamp'', JStr ''20240101_120000''),
               (''detections'',
                  JList [JDict [(''class'', JStr ''cube''), (''confidence'', JFloat (9 / 10)),
                                (''center_px'', JList [JFloat 20, JFloat (1189 / 20)])]]),
               (''crop_shape'', JList [JInt 200, JInt 100]),
               (''raw_image'', JBool False)]], None)"
    by (simp add: main_iteration_def send_image_data_def demo_env_def demo_frame_def
        target_ids_def target_def trunc_def center_x_def center_y_def fadd_def fsub_def
        fdiv_def to_float_def)
  ultimately show ?thesis using a b fr ex by simp
qed

section \<open>The flip of the monitor\<close>

text \<open>
  C10. For the detections that the sender builds at frame height \<open>h\<close>,
  \<open>draw_detections\<close> on an image of height \<open>H\<close> draws the circle of each at row
  \<open>H\<close> minus the truncated transmitted y. When \<open>H = h\<close>, the rounding is that of a float
  format, \<open>h\<close> is at most \<open>2 ^ 53\<close> and the centres lie inside the frame, each row
  differs from the detector's y by less than one, and equals it when that y is a whole
  number.
\<close>

theorem draw_detections_inverts_flip:
  assumes "dets_loop env ids h boxes [] = Inr dets"
    and "shape img = H # rest"
    and "draw_detections str_to_int fmt_label img dets = Inr ops"
  shows "circle_rows ops =
      map (\<lambda>b. int H - trunc (fsub (rnd env) (to_float (rnd env) (int h)) (center_y (rnd env) b)))
        (filter (\<lambda>b. trunc (cls b) \<in> set ids) boxes) \<and>
    (H = h \<and> float_rounding (rnd env) \<and> h \<le> 2 ^ 53 \<and>
     (\<forall>b \<in> set (filter (\<lambda>b. trunc (cls b) \<in> set ids) boxes).
        0 \<le> center_y (rnd env) b \<and> center_y (rnd env) b \<le> real h) \<longrightarrow>
     list_all2
       (\<lambda>row b. \<bar>real_of_int row - center_y (rnd env) b\<bar> < 1 \<and>
                (center_y (rnd env) b \<in> \<int> \<longrightarrow> real_of_int row = center_y (rnd env) b))
       (circle_rows ops) (filter (\<lambda>b. trunc (cls b) \<in> set ids) boxes))"
proof -
  let ?r = "rnd env"
  let ?kept = "filter (\<lambda>b. trunc (cls b) \<in> set ids) boxes"
  let ?y' = "\<lambda>b. fsub ?r (to_float ?r (int h)) (center_y ?r b)"
  have centers: "map (\<lambda>d. map_of d ''center_px'') dets =
      map (\<lambda>b. Some (JList [JFloat (center_x ?r b), JFloat (?y' b)])) ?kept"
    using dets_loop_centers [OF assms(1)] by simp
  have rows: "circle_rows ops = map (\<lambda>b. int H - trunc (?y' b)) ?kept"
    using draw_loop_rows [OF assms(2) centers, of str_to_int fmt_label "[]" ops] assms(3)
    by (simp add: draw_detections_def)
  have near: "list_all2
       (\<lambda>row b. \<bar>real_of_int row - center_y ?r b\<bar> < 1 \<and>
                (center_y ?r b \<in> \<int> \<longrightarrow> real_of_int row = center_y ?r b))
       (circle_rows ops) ?kept"
    if eq: "H = h" and fr: "float_rounding ?r" and hb: "h \<le> 2 ^ 53"
      and inside: "\<forall>b \<in> set ?kept. 0 \<le> center_y ?r b \<and> center_y ?r b \<le> real h"
  proof -
    have "\<bar>real_of_int (int h - trunc (?y' b)) - center_y ?r b\<bar> < 1 \<and>
        (center_y ?r b \<in> \<int> \<longrightarrow> real_of_int (int h - trunc (?y' b)) = center_y ?r b)"
      if "b \<in> set ?kept" for b
    proof -
      from inside that have "0 \<le> center_y ?r b" and "center_y ?r b \<le> real h" by blast+
      from flip_round_trip [OF fr hb this]
      have "\<bar>real_of_int (int h - trunc (?y' b)) - center_y ?r b\<bar> < 1" .
      then show ?thesis using near_integer by blast
    qed
    then show ?thesis
      unfolding rows eq by (simp add: list_all2_map1 list_all2_same)
  qed
  from rows near show ?thesis by blast
qed

theorem draw_detections_inverts_flip_witness:
  "dets_loop (demo_env\<lparr>rnd := quarter\<rparr>) [0] 100 (model demo_env demo_frame) [] =
     Inr [[(''class'', JStr ''cube''), (''confidence'', JFloat (9 / 10)),
           (''center_px'', JList [JFloat 20, JFloat (119 / 2)])]] \<and>
   shape demo_frame = [100, 200, 3] \<and>
   draw_detections (\<lambda>s. None) (\<lambda>c v. Inr ''cube'') demo_frame
     [[(''class'', JStr ''cube''), (''confidence'', JFloat (9 / 10)),
       (''center_px'', JList [JFloat 20, JFloat (119 / 2)])]] =
     Inr [Circle 20 41, PutText ''cube'' 30 41] \<and>
   float_rounding quarter \<and>
   center_y quarter \<lparr>cls = 0, conf = 9 / 10, xyxy = (10, 20, 30, 611 / 10)\<rparr> = 81 / 2 \<and>
   list_all2
     (\<lambda>row b. \<bar>real_of_int row - center_y quarter b\<bar> < 1)
     (circle_rows [Circle 20 41, PutText ''cube'' 30 41])
     [\<lparr>cls = 0, conf = 9 / 10, xyxy = (10, 20, 30, 611 / 10)\<rparr>]"
proof -
  let ?env = "demo_env\<lparr>rnd := quarter\<rparr>"
  have r: "rnd ?env = quarter" by simp
  have m: "model ?env demo_frame = model demo_env demo_frame" by simp
  have a: "dets_loop ?env [0] 100 (model ?env demo_frame) [] =
     Inr [[(''class'', JStr ''cube''), (''confidence'', JFloat (9 / 10)),
           (''center_px'', JList [JFloat 20, JFloat (119 / 2)])]]"
    by (simp add: demo_env_def trunc_def center_x_def center_y_def fadd_def fsub_def
        fdiv_def to_float_def quarter_def)
  have b: "shape demo_frame = [100, 200, 3]"
    by (simp add: demo_frame_def)
  have c: "draw_detections (\<lambda>s. None) (\<lambda>c v. Inr ''cube'') demo_frame
     [[(''class'', JStr ''cube''), (''confidence'', JFloat (9 / 10)),
       (''center_px'', JList [JFloat 20, JFloat (119 / 2)])]] =
     Inr [Circle 20 41, PutText ''cube'' 30 41]"
    by (simp add: draw_detections_def unpack2_int_def trunc_def demo_frame_def dict_get_def)
  have fr: "float_rounding (rnd ?env)"
    unfolding r by (rule float_rounding_quarter)
  have cy: "center_y quarter \<lparr>cls = 0, conf = 9 / 10, xyxy = (10, 20, 30, 611 / 10)\<rparr> = 81 / 2"
    by (simp add: center_y_def fadd_def fdiv_def quarter_def)
  have kept: "filter (\<lambda>b. trunc (cls b) \<in> set [0]) (model ?env demo_frame) =
      [\<lparr>cls = 0, conf = 9 / 10, xyxy = (10, 20, 30, 611 / 10)\<rparr>]"
    by (simp add: demo_env_def trunc_def)
  have inside: "\<forall>b \<in> set (filter (\<lambda>b. trunc (cls b) \<in> set [0]) (model ?env demo_frame)).
      0 \<le> center_y (rnd ?env) b \<and> center_y (rnd ?env) b \<le> real 100"
    unfolding kept r using cy by simp
  have "list_all2
     (\<lambda>row b. \<bar>real_of_int row - center_y (rnd ?env) b\<bar> < 1 \<and>
        (center_y (rnd ?env) b \<in> \<int> \<longrightarrow> real_of_int row = center_y (rnd ?env) b))
     (circle_rows [Circle 20 41, PutText ''cube'' 30 41])
     (filter (\<lambda>b. trunc (cls b) \<in> set [0]) (model ?env demo_frame))"
  proof -
    have hb: "(100::nat) \<le> 2 ^ 53" by simp
    have eq: "(100::nat) = 100" by simp
    from draw_detections_inverts_flip [OF a b c] eq fr hb inside show ?thesis
      by blast
  qed
  then have "list_all2
     (\<lambda>row b. \<bar>real_of_int row - center_y quarter b\<bar> < 1)
     (circle_rows [Circle 20 41, PutText ''cube'' 30 41])
     [\<lparr>cls = 0, conf = 9 / 10, xyxy = (10, 20, 30, 611 / 10)\<rparr>]"
    unfolding kept r by simp
  with a b c cy float_rounding_quarter show ?thesis unfolding m by blast
qed

end
